theory Spec2Isabelle
  imports Main
begin

section \<open>The operator builder \<open>reduce_sum\<close> of oneflow/python/ops/reduce_sum.py\<close>

text \<open>
  The source file holds one function, \<open>reduce_sum\<close>. It fills an operator
  descriptor, hands it to the current job and returns a handle on the operator's
  output. Its effects are a line on standard output (the int8 warning), a draw from the
  unique-id generator (when no name is given) and one operator added to the job. The
  embedding threads these three through a record \<open>world\<close>.
\<close>

subsection \<open>Arguments\<close>

text \<open>
  \<open>input_tensor.dtype\<close> is only compared with \<open>oneflow.int8\<close> by identity. The dtype
  constants live in the \<open>oneflow\<close> package; every dtype other than int8 is kept by its
  name.
\<close>

datatype dtype = int8 | other_dtype string

text \<open>The two attributes of \<open>input_tensor\<close> that the function reads.\<close>

record blob =
  dtype :: dtype
  logical_blob_name :: string

text \<open>
  A value of the \<open>axis\<close> argument other than \<open>None\<close>: one integer, or a list or
  a tuple of integers. Lists and tuples are instances of \<open>collections.Sized\<close>, an
  integer is not. The argument itself has type \<open>py_axis option\<close>, Python's
  \<open>None\<close> being \<open>None\<close>.
\<close>

datatype py_axis = PyInt int | PyList "int list" | PyTuple "int list"

fun isinstance_Sized :: "py_axis \<Rightarrow> bool" where
  "isinstance_Sized (PyInt i) = False"
| "isinstance_Sized (PyList xs) = True"
| "isinstance_Sized (PyTuple xs) = True"

text \<open>
  The expression \<open>list(axis) if isinstance(axis, collections.Sized) else [axis]\<close>:
  the isinstance test is a test on the kind of value, \<open>list\<close> of a list or of a tuple
  is the list of its elements in iteration order, and \<open>[axis]\<close> is the one-element
  list.
\<close>

fun axis_as_list :: "py_axis \<Rightarrow> int list" where
  "axis_as_list (PyList xs) = xs"
| "axis_as_list (PyTuple xs) = xs"
| "axis_as_list (PyInt i) = [i]"

subsection \<open>Descriptors\<close>

text \<open>
  The messages of \<open>op_conf_pb2\<close> and \<open>logical_blob_id_pb2\<close>, with the fields
  this function touches. A singular field is \<open>None\<close> until it is set; the repeated
  field \<open>axis\<close> starts empty. The field \<open>in\<close> is written \<open>rs_in\<close>, and the
  others follow it.
\<close>

record ReduceSumOpConf =
  rs_in :: "string option"
  rs_out :: "string option"
  rs_axis :: "int list"
  rs_keep_dims :: "bool option"

record OperatorConf =
  oc_name :: "string option"
  reduce_sum_conf :: ReduceSumOpConf

record LogicalBlobId =
  op_name :: "string option"
  blob_name :: "string option"

definition new_ReduceSumOpConf :: ReduceSumOpConf where
  "new_ReduceSumOpConf =
     \<lparr>rs_in = None, rs_out = None, rs_axis = [], rs_keep_dims = None\<rparr>"

definition new_OperatorConf :: OperatorConf where
  "new_OperatorConf = \<lparr>oc_name = None, reduce_sum_conf = new_ReduceSumOpConf\<rparr>"

definition new_LogicalBlobId :: LogicalBlobId where
  "new_LogicalBlobId = \<lparr>op_name = None, blob_name = None\<rparr>"

text \<open>Reading a singular string field gives the empty string while it is unset.\<close>

fun get_string :: "string option \<Rightarrow> string" where
  "get_string None = []"
| "get_string (Some s) = s"

text \<open>
  Modelled from the spec: \<open>remote_blob_util.RemoteBlob\<close> is not part of these sources.
  The spec calls its result a handle to the operation's output; the handle keeps the
  logical blob id it was built from.
\<close>

datatype RemoteBlob = RemoteBlob (lbi: LogicalBlobId)

subsection \<open>The collaborators' state\<close>

record world =
  job :: "OperatorConf list"
  unique_id :: nat
  stdout :: "string list"

text \<open>\<open>print(s)\<close> adds one line to standard output.\<close>

definition print :: "string \<Rightarrow> world \<Rightarrow> world" where
  "print s w = w\<lparr>stdout := stdout w @ [s]\<rparr>"

text \<open>
  Modelled from the spec: \<open>compile_context.CurJobAddOp\<close> is not part of these
  sources. The spec's job is the in-progress graph-construction context that accumulates
  operator descriptors: the call adds the descriptor, as it is at the call, after the
  operators the job already holds.
\<close>

definition CurJobAddOp :: "OperatorConf \<Rightarrow> world \<Rightarrow> world" where
  "CurJobAddOp op_conf w = w\<lparr>job := job w @ [op_conf]\<rparr>"

text \<open>The decimal digits of a natural number, as \<open>"%d"\<close> prints them.\<close>

definition digit_char :: "nat \<Rightarrow> char" where
  "digit_char d = char_of (48 + d)"

function decimal :: "nat \<Rightarrow> string" where
  "decimal n = (if n < 10 then [digit_char n] else decimal (n div 10) @ [digit_char (n mod 10)])"
  by pat_completeness auto
termination
  by (relation "measure id") auto

declare decimal.simps [simp del]

text \<open>
  Modelled from the spec: \<open>id_util.UniqueStr\<close> is not part of these sources; the spec
  names it as a collaborator and says no more. It is taken to return its prefix followed
  by the decimal value of a counter, which it then advances.
\<close>

definition UniqueStr :: "string \<Rightarrow> world \<Rightarrow> string \<times> world" where
  "UniqueStr prefix w = (prefix @ decimal (unique_id w), w\<lparr>unique_id := unique_id w + 1\<rparr>)"

subsection \<open>The function\<close>

definition int8_warning :: "string \<Rightarrow> string" where
  "int8_warning lbn =
     ''warnning: int 8 blob: '' @ lbn @ '' is used in a reduce sum, could lead to overflow''"

text \<open>
  \<open>reduce_sum(input_tensor, axis, keepdims, name)\<close>, statement by statement. The
  conditional expression for the name calls \<open>UniqueStr\<close> only when \<open>name\<close> is
  \<open>None\<close>.
\<close>

definition reduce_sum ::
  "blob \<Rightarrow> py_axis option \<Rightarrow> bool \<Rightarrow> string option \<Rightarrow> world \<Rightarrow> RemoteBlob \<times> world" where
  "reduce_sum input_tensor axis keepdims name w0 =
    (let w1 = (if dtype input_tensor = int8
               then print (int8_warning (logical_blob_name input_tensor)) w0
               else w0);
         op_conf = new_OperatorConf;
         (nm, w2) = (case name of Some n \<Rightarrow> (n, w1) | None \<Rightarrow> UniqueStr ''ReduceSum_'' w1);
         op_conf = op_conf\<lparr>oc_name := Some nm\<rparr>;
         op_conf = op_conf\<lparr>reduce_sum_conf :=
                     (reduce_sum_conf op_conf)\<lparr>rs_in := Some (logical_blob_name input_tensor)\<rparr>\<rparr>;
         op_conf = op_conf\<lparr>reduce_sum_conf :=
                     (reduce_sum_conf op_conf)\<lparr>rs_out := Some ''out''\<rparr>\<rparr>;
         op_conf = (case axis of
                      None \<Rightarrow> op_conf
                    | Some a \<Rightarrow> op_conf\<lparr>reduce_sum_conf :=
                                 (reduce_sum_conf op_conf)\<lparr>rs_axis := axis_as_list a\<rparr>\<rparr>);
         op_conf = op_conf\<lparr>reduce_sum_conf :=
                     (reduce_sum_conf op_conf)\<lparr>rs_keep_dims := Some keepdims\<rparr>\<rparr>;
         w3 = CurJobAddOp op_conf w2;
         lbi = new_LogicalBlobId;
         lbi = lbi\<lparr>op_name := Some (get_string (oc_name op_conf))\<rparr>;
         lbi = lbi\<lparr>blob_name := Some ''out''\<rparr>
     in (RemoteBlob lbi, w3))"

text \<open>The call \<open>reduce_sum(input_tensor)\<close>, every other argument at its default.\<close>

definition reduce_sum_defaults :: "blob \<Rightarrow> world \<Rightarrow> RemoteBlob \<times> world" where
  "reduce_sum_defaults input_tensor w0 = reduce_sum input_tensor None False None w0"

text \<open>
  Reading \<open>op_conf.reduce_sum_conf.axis\<close> back gives the sequence of the integers the
  repeated field holds.
\<close>

definition axis_field_value :: "OperatorConf \<Rightarrow> py_axis" where
  "axis_field_value op_conf = PyList (rs_axis (reduce_sum_conf op_conf))"

section \<open>Properties\<close>

subsection \<open>The decimal rendering of the counter\<close>

lemma digit_char_inj:
  assumes "a < 10" and "b < 10" and "digit_char a = digit_char b"
  shows "a = b"
proof -
  from assms(3) have "(of_char (char_of (48 + a) :: char) :: nat) = of_char (char_of (48 + b) :: char)"
    by (simp add: digit_char_def)
  then have "(48 + a) mod 256 = (48 + b) mod 256"
    by (simp only: of_char_of)
  with assms(1,2) show ?thesis by simp
qed

lemma decimal_nonempty: "decimal n \<noteq> []"
  by (subst decimal.simps) simp

lemma decimal_inj: "decimal m = decimal n \<Longrightarrow> m = n"
proof (induction m arbitrary: n rule: decimal.induct)
  case (1 m)
  show ?case
  proof (cases "m < 10")
    case True
    note m = this
    show ?thesis
    proof (cases "n < 10")
      case True
      with m 1(2) show ?thesis
        by (simp add: decimal.simps[of m] decimal.simps[of n] digit_char_inj)
    next
      case False
      with m 1(2) show ?thesis
        using decimal_nonempty[of "n div 10"]
        by (simp add: decimal.simps[of m] decimal.simps[of n])
    qed
  next
    case False
    note m = this
    show ?thesis
    proof (cases "n < 10")
      case True
      with m 1(2) show ?thesis
        using decimal_nonempty[of "m div 10"]
        by (simp add: decimal.simps[of m] decimal.simps[of n])
    next
      case False
      with m 1(2) have e: "decimal (m div 10) = decimal (n div 10)"
        and d: "digit_char (m mod 10) = digit_char (n mod 10)"
        by (simp_all add: decimal.simps[of m] decimal.simps[of n])
      from 1(1)[OF m e] have "m div 10 = n div 10" .
      moreover from d have "m mod 10 = n mod 10"
        by (simp add: digit_char_inj)
      ultimately show ?thesis
        by (metis div_mult_mod_eq)
    qed
  qed
qed

subsection \<open>What one call computes\<close>

text \<open>
  The result of a call in closed form, once for a caller-given name and once for
  \<open>name = None\<close>. Every property below is read off these two equations.
\<close>

lemma reduce_sum_named:
  "reduce_sum t axis k (Some n) w =
     (RemoteBlob \<lparr>op_name = Some n, blob_name = Some ''out''\<rparr>,
      (if dtype t = int8 then print (int8_warning (logical_blob_name t)) w else w)
        \<lparr>job := job w @
          [\<lparr>oc_name = Some n,
            reduce_sum_conf = \<lparr>rs_in = Some (logical_blob_name t), rs_out = Some ''out'',
              rs_axis = (case axis of None \<Rightarrow> [] | Some a \<Rightarrow> axis_as_list a),
              rs_keep_dims = Some k\<rparr>\<rparr>]\<rparr>)"
  by (simp add: reduce_sum_def Let_def new_OperatorConf_def new_ReduceSumOpConf_def
      new_LogicalBlobId_def CurJobAddOp_def print_def split: option.split)

lemma reduce_sum_unnamed:
  "reduce_sum t axis k None w =
     (RemoteBlob \<lparr>op_name = Some (''ReduceSum_'' @ decimal (unique_id w)),
                  blob_name = Some ''out''\<rparr>,
      (if dtype t = int8 then print (int8_warning (logical_blob_name t)) w else w)
        \<lparr>job := job w @
          [\<lparr>oc_name = Some (''ReduceSum_'' @ decimal (unique_id w)),
            reduce_sum_conf = \<lparr>rs_in = Some (logical_blob_name t), rs_out = Some ''out'',
              rs_axis = (case axis of None \<Rightarrow> [] | Some a \<Rightarrow> axis_as_list a),
              rs_keep_dims = Some k\<rparr>\<rparr>],
          unique_id := unique_id w + 1\<rparr>)"
  by (simp add: reduce_sum_def Let_def new_OperatorConf_def new_ReduceSumOpConf_def
      new_LogicalBlobId_def CurJobAddOp_def UniqueStr_def print_def split: option.split)

text \<open>The job after a call: the operators it held, then the one descriptor of this call.\<close>

lemma job_after:
  "job (snd (reduce_sum t axis k name w)) = job w @
     [\<lparr>oc_name = Some (case name of Some n \<Rightarrow> n
                         | None \<Rightarrow> ''ReduceSum_'' @ decimal (unique_id w)),
       reduce_sum_conf = \<lparr>rs_in = Some (logical_blob_name t), rs_out = Some ''out'',
         rs_axis = (case axis of None \<Rightarrow> [] | Some a \<Rightarrow> axis_as_list a),
         rs_keep_dims = Some k\<rparr>\<rparr>]"
  by (cases name) (simp_all add: reduce_sum_named reduce_sum_unnamed print_def)

subsection \<open>The claims\<close>

text \<open>
  C1. Every call \<open>reduce_sum(input_tensor, axis, keepdims, name)\<close> builds a descriptor
  whose \<open>reduce_sum_conf.in\<close> is \<open>input_tensor.logical_blob_name\<close> and whose
  \<open>reduce_sum_conf.out\<close> is the string "out", hands that descriptor to
  \<open>CurJobAddOp\<close> (it is the one operator the job gains) and returns a
  \<open>RemoteBlob\<close> on the output of that operator: the blob "out" of the operator of
  the descriptor's name.
\<close>

theorem reduce_sum_builds_registers_returns:
  "\<exists>op_conf l.
      job (snd (reduce_sum input_tensor axis keepdims name w)) = job w @ [op_conf]
    \<and> rs_in (reduce_sum_conf op_conf) = Some (logical_blob_name input_tensor)
    \<and> rs_out (reduce_sum_conf op_conf) = Some ''out''
    \<and> fst (reduce_sum input_tensor axis keepdims name w) = RemoteBlob l
    \<and> op_name l = oc_name op_conf \<and> blob_name l = Some ''out''"
proof (cases name)
  case None
  then show ?thesis
    by (simp add: reduce_sum_unnamed print_def)
next
  case (Some n)
  then show ?thesis
    by (simp add: reduce_sum_named print_def)
qed

text \<open>
  C2, as stated: the axis value given by the caller is stored unchanged in
  \<open>reduce_sum_conf.axis\<close>, also when it is a single integer. It is not: for
  \<open>axis = 3\<close> the field holds the list \<open>[3]\<close>, which is not the integer
  \<open>3\<close>.
\<close>

theorem axis_single_integer_not_stored_unchanged:
  "job (snd (reduce_sum \<lparr>dtype = other_dtype ''float'', logical_blob_name = ''x/out''\<rparr>
               (Some (PyInt 3)) False (Some ''rs'') \<lparr>job = [], unique_id = 0, stdout = []\<rparr>))
     = [\<lparr>oc_name = Some ''rs'',
         reduce_sum_conf = \<lparr>rs_in = Some ''x/out'', rs_out = Some ''out'', rs_axis = [3],
           rs_keep_dims = Some False\<rparr>\<rparr>]
   \<and> Some (axis_field_value (last (job (snd (reduce_sum
         \<lparr>dtype = other_dtype ''float'', logical_blob_name = ''x/out''\<rparr>
         (Some (PyInt 3)) False (Some ''rs'') \<lparr>job = [], unique_id = 0, stdout = []\<rparr>)))))
     \<noteq> Some (PyInt 3)"
  by (simp add: reduce_sum_named axis_field_value_def)

text \<open>
  C2, amended: the caller's integers reach \<open>reduce_sum_conf.axis\<close> unchanged and in
  order, and the value is normalised to a list on the way. For \<open>axis = None\<close> the field
  is not assigned and stays empty; for a single integer it is the one-element list of
  that integer; for a list or a tuple it is the list of the elements.
\<close>

theorem axis_elements_passed_through:
  "(\<exists>c. job (snd (reduce_sum t None k name w)) = job w @ [c]
        \<and> rs_axis (reduce_sum_conf c) = [])
 \<and> (\<exists>c. job (snd (reduce_sum t (Some (PyInt i)) k name w)) = job w @ [c]
        \<and> rs_axis (reduce_sum_conf c) = [i])
 \<and> (\<exists>c. job (snd (reduce_sum t (Some (PyList xs)) k name w)) = job w @ [c]
        \<and> rs_axis (reduce_sum_conf c) = xs \<and> axis_field_value c = PyList xs)
 \<and> (\<exists>c. job (snd (reduce_sum t (Some (PyTuple xs)) k name w)) = job w @ [c]
        \<and> rs_axis (reduce_sum_conf c) = xs)"
  by (simp add: job_after axis_field_value_def)

text \<open>
  C3. The registered descriptor's \<open>reduce_sum_conf.keep_dims\<close> is the caller's
  \<open>keepdims\<close>, whatever it is; a call that leaves \<open>keepdims\<close> out stores the
  default \<open>False\<close>.
\<close>

theorem keepdims_passed_through:
  "(\<exists>c. job (snd (reduce_sum t axis keepdims name w)) = job w @ [c]
        \<and> rs_keep_dims (reduce_sum_conf c) = Some keepdims)
 \<and> (\<exists>c. job (snd (reduce_sum_defaults t w)) = job w @ [c]
        \<and> rs_keep_dims (reduce_sum_conf c) = Some False)"
proof (intro conjI)
  show "\<exists>c. job (snd (reduce_sum t axis keepdims name w)) = job w @ [c]
          \<and> rs_keep_dims (reduce_sum_conf c) = Some keepdims"
    by (simp add: job_after)
  show "\<exists>c. job (snd (reduce_sum_defaults t w)) = job w @ [c]
          \<and> rs_keep_dims (reduce_sum_conf c) = Some False"
    unfolding reduce_sum_defaults_def by (simp add: job_after)
qed

text \<open>
  C4. The function has no rejecting path: for every input tensor, axis, keepdims and
  name the call returns a handle and registers its operator. An int8 input differs from
  the same input with any other dtype in one way only: the warning line is added to
  standard output. The handle, the job and the id counter are the same, and for the other
  dtype nothing is printed.
\<close>

theorem reduce_sum_never_rejects:
  "(\<exists>l c. fst (reduce_sum t axis k name w) = RemoteBlob l
         \<and> job (snd (reduce_sum t axis k name w)) = job w @ [c])
 \<and> reduce_sum (t\<lparr>dtype := int8\<rparr>) axis k name w =
     (fst (reduce_sum (t\<lparr>dtype := other_dtype d\<rparr>) axis k name w),
      (snd (reduce_sum (t\<lparr>dtype := other_dtype d\<rparr>) axis k name w))
        \<lparr>stdout := stdout w @ [int8_warning (logical_blob_name t)]\<rparr>)
 \<and> stdout (snd (reduce_sum (t\<lparr>dtype := other_dtype d\<rparr>) axis k name w)) = stdout w"
proof (cases name)
  case None
  then show ?thesis
    by (simp add: reduce_sum_unnamed print_def)
next
  case (Some n)
  then show ?thesis
    by (simp add: reduce_sum_named print_def)
qed

text \<open>
  C5. The returned handle is built from the logical blob id (operation name, output
  slot name) of the registered operator: its \<open>op_name\<close> is the \<open>name\<close> field of
  the descriptor handed to \<open>CurJobAddOp\<close>, which is set, and its \<open>blob_name\<close> is
  "out", the string in the descriptor's \<open>reduce_sum_conf.out\<close>.
\<close>

theorem handle_names_registered_output:
  "\<exists>c. job (snd (reduce_sum t axis k name w)) = job w @ [c]
     \<and> op_name (lbi (fst (reduce_sum t axis k name w))) = oc_name c
     \<and> oc_name c \<noteq> None
     \<and> blob_name (lbi (fst (reduce_sum t axis k name w))) = Some ''out''
     \<and> blob_name (lbi (fst (reduce_sum t axis k name w))) = rs_out (reduce_sum_conf c)"
proof -
  obtain nm where nm: "nm = (case name of Some n \<Rightarrow> n
                             | None \<Rightarrow> ''ReduceSum_'' @ decimal (unique_id w))"
    by simp
  have handle: "lbi (fst (reduce_sum t axis k name w)) = \<lparr>op_name = Some nm, blob_name = Some ''out''\<rparr>"
    using nm by (cases name) (simp_all add: reduce_sum_named reduce_sum_unnamed)
  show ?thesis
    using nm by (simp add: handle job_after)
qed

text \<open>
  C6. One call adds exactly one operator to the job, after the operators already there,
  which stay as they were. The descriptor added carries all five fields as the function
  set them (name, in, out, axis, keep_dims): it is handed over only once they are set.
\<close>

theorem job_gains_one_complete_operator:
  "job (snd (reduce_sum t axis k name w)) = job w @
     [\<lparr>oc_name = Some (case name of Some n \<Rightarrow> n
                         | None \<Rightarrow> ''ReduceSum_'' @ decimal (unique_id w)),
       reduce_sum_conf = \<lparr>rs_in = Some (logical_blob_name t), rs_out = Some ''out'',
         rs_axis = (case axis of None \<Rightarrow> [] | Some a \<Rightarrow> axis_as_list a),
         rs_keep_dims = Some k\<rparr>\<rparr>]
  \<and> length (job (snd (reduce_sum t axis k name w))) = Suc (length (job w))
  \<and> take (length (job w)) (job (snd (reduce_sum t axis k name w))) = job w"
  by (simp add: job_after)

text \<open>
  C7. With a name given, the registered descriptor's \<open>name\<close> is that name and no
  unique id is drawn. With \<open>name = None\<close> the name is what
  \<open>UniqueStr("ReduceSum_")\<close> returns: the prefix "ReduceSum_" followed by the
  counter's decimal value. The counter advances by one, and two different counter values
  give two different names, so the name is fresh.
\<close>

theorem descriptor_name_given_or_unique:
  "(\<exists>c. job (snd (reduce_sum t axis k (Some n) w)) = job w @ [c] \<and> oc_name c = Some n)
 \<and> unique_id (snd (reduce_sum t axis k (Some n) w)) = unique_id w
 \<and> (\<exists>c. job (snd (reduce_sum t axis k None w)) = job w @ [c]
        \<and> oc_name c = Some (fst (UniqueStr ''ReduceSum_'' w))
        \<and> oc_name c = Some (''ReduceSum_'' @ decimal (unique_id w)))
 \<and> unique_id (snd (reduce_sum t axis k None w)) = Suc (unique_id w)
 \<and> (unique_id v \<noteq> unique_id w \<longrightarrow>
      fst (UniqueStr ''ReduceSum_'' v) \<noteq> fst (UniqueStr ''ReduceSum_'' w))"
proof (intro conjI impI)
  show "\<exists>c. job (snd (reduce_sum t axis k (Some n) w)) = job w @ [c] \<and> oc_name c = Some n"
    by (simp add: job_after)
  show "unique_id (snd (reduce_sum t axis k (Some n) w)) = unique_id w"
    by (simp add: reduce_sum_named print_def)
  show "\<exists>c. job (snd (reduce_sum t axis k None w)) = job w @ [c]
          \<and> oc_name c = Some (fst (UniqueStr ''ReduceSum_'' w))
          \<and> oc_name c = Some (''ReduceSum_'' @ decimal (unique_id w))"
    by (simp add: job_after UniqueStr_def)
  show "unique_id (snd (reduce_sum t axis k None w)) = Suc (unique_id w)"
    by (simp add: reduce_sum_unnamed print_def)
next
  assume "unique_id v \<noteq> unique_id w"
  then have "decimal (unique_id v) \<noteq> decimal (unique_id w)"
    using decimal_inj by blast
  then show "fst (UniqueStr ''ReduceSum_'' v) \<noteq> fst (UniqueStr ''ReduceSum_'' w)"
    by (simp add: UniqueStr_def)
qed

theorem descriptor_name_given_or_unique_witness:
  "(\<exists>c. job (snd (reduce_sum \<lparr>dtype = int8, logical_blob_name = ''x/out''\<rparr> (Some (PyInt 1)) True
              (Some ''my_sum'') \<lparr>job = [], unique_id = 7, stdout = []\<rparr>)) = [] @ [c]
        \<and> oc_name c = Some ''my_sum'')
 \<and> (\<exists>c. job (snd (reduce_sum \<lparr>dtype = int8, logical_blob_name = ''x/out''\<rparr> (Some (PyInt 1)) True
              None \<lparr>job = [], unique_id = 7, stdout = []\<rparr>)) = [] @ [c]
        \<and> oc_name c = Some ''ReduceSum_7'')
 \<and> unique_id \<lparr>job = [], unique_id = 8, stdout = []\<rparr>
      \<noteq> unique_id \<lparr>job = [], unique_id = 7, stdout = []\<rparr>
 \<and> fst (UniqueStr ''ReduceSum_'' \<lparr>job = [], unique_id = 8, stdout = []\<rparr>)
      \<noteq> fst (UniqueStr ''ReduceSum_'' \<lparr>job = [], unique_id = 7, stdout = []\<rparr>)"
proof -
  have seven: "decimal 7 = ''7''" and eight: "decimal 8 = ''8''"
    by code_simp+
  show ?thesis
    using descriptor_name_given_or_unique
      [of "\<lparr>dtype = int8, logical_blob_name = ''x/out''\<rparr>" "Some (PyInt 1)" True "''my_sum''"
          "\<lparr>job = [], unique_id = 7, stdout = []\<rparr>" "\<lparr>job = [], unique_id = 8, stdout = []\<rparr>"]
    by (simp add: seven eight UniqueStr_def)
qed

text \<open>
  C8. The dtype does not reach the result. Take two calls with the same
  \<open>logical_blob_name\<close>, axis, keepdims and name, whatever the two dtypes (one int8, the
  other not), from states in which the id counter stands at the same value when the name
  is generated. The descriptor handed to \<open>CurJobAddOp\<close> is the same and the logical
  blob id of the handle is the same; from one and the same state the two final states
  differ at most in what was printed.
\<close>

theorem dtype_does_not_interfere:
  assumes "logical_blob_name t1 = logical_blob_name t2"
    and "name = None \<longrightarrow> unique_id w1 = unique_id w2"
  shows "(\<exists>c. job (snd (reduce_sum t1 axis k name w1)) = job w1 @ [c]
            \<and> job (snd (reduce_sum t2 axis k name w2)) = job w2 @ [c])
       \<and> lbi (fst (reduce_sum t1 axis k name w1)) = lbi (fst (reduce_sum t2 axis k name w2))
       \<and> (snd (reduce_sum t1 axis k name w1))\<lparr>stdout := s\<rparr>
           = (snd (reduce_sum t2 axis k name w1))\<lparr>stdout := s\<rparr>"
proof (cases name)
  case None
  with assms have "unique_id w1 = unique_id w2"
    by simp
  with assms(1) None show ?thesis
    by (simp add: reduce_sum_unnamed print_def)
next
  case (Some n)
  with assms(1) show ?thesis
    by (simp add: reduce_sum_named print_def)
qed

theorem dtype_does_not_interfere_witness:
  "logical_blob_name \<lparr>dtype = int8, logical_blob_name = ''x/out''\<rparr>
     = logical_blob_name \<lparr>dtype = other_dtype ''float'', logical_blob_name = ''x/out''\<rparr>
 \<and> unique_id \<lparr>job = [], unique_id = 4, stdout = []\<rparr>
     = unique_id \<lparr>job = [], unique_id = 4, stdout = [''earlier line'']\<rparr>
 \<and> (\<exists>c. job (snd (reduce_sum \<lparr>dtype = int8, logical_blob_name = ''x/out''\<rparr>
               (Some (PyList [0, 1])) False None \<lparr>job = [], unique_id = 4, stdout = []\<rparr>))
           = [] @ [c]
        \<and> job (snd (reduce_sum \<lparr>dtype = other_dtype ''float'', logical_blob_name = ''x/out''\<rparr>
               (Some (PyList [0, 1])) False None
               \<lparr>job = [], unique_id = 4, stdout = [''earlier line'']\<rparr>))
           = [] @ [c])
 \<and> lbi (fst (reduce_sum \<lparr>dtype = int8, logical_blob_name = ''x/out''\<rparr>
               (Some (PyList [0, 1])) False None \<lparr>job = [], unique_id = 4, stdout = []\<rparr>))
     = lbi (fst (reduce_sum \<lparr>dtype = other_dtype ''float'', logical_blob_name = ''x/out''\<rparr>
               (Some (PyList [0, 1])) False None
               \<lparr>job = [], unique_id = 4, stdout = [''earlier line'']\<rparr>))"
  using dtype_does_not_interfere
    [of "\<lparr>dtype = int8, logical_blob_name = ''x/out''\<rparr>"
        "\<lparr>dtype = other_dtype ''float'', logical_blob_name = ''x/out''\<rparr>"
        None "\<lparr>job = [], unique_id = 4, stdout = []\<rparr>"
        "\<lparr>job = [], unique_id = 4, stdout = [''earlier line'']\<rparr>"
        "Some (PyList [0, 1])" False "[]"]
  by simp

text \<open>
  C9. When \<open>axis\<close> is not \<open>None\<close>, \<open>reduce_sum_conf.axis\<close> is a list of the
  caller's elements in the caller's order: for a Sized value (a list or a tuple) the list
  of its elements, for any other value the one-element list of that value. The
  descriptor holds the elements themselves, not the caller's object: \<open>list(axis)\<close>
  builds a new list and the slice assignment writes its elements into the field.
\<close>

theorem axis_stored_as_list_in_order:
  "\<exists>c. job (snd (reduce_sum t (Some a) k name w)) = job w @ [c]
      \<and> (case a of
            PyList xs \<Rightarrow> isinstance_Sized a \<and> rs_axis (reduce_sum_conf c) = xs
          | PyTuple xs \<Rightarrow> isinstance_Sized a \<and> rs_axis (reduce_sum_conf c) = xs
          | PyInt i \<Rightarrow> \<not> isinstance_Sized a \<and> rs_axis (reduce_sum_conf c) = [i])"
proof (cases a)
  case (PyInt i)
  then show ?thesis by (simp add: job_after)
next
  case (PyList xs)
  then show ?thesis by (simp add: job_after)
next
  case (PyTuple xs)
  then show ?thesis by (simp add: job_after)
qed

end
